theory Spec2Isabelle
  imports Complex_Main
begin

section \<open>JavaScript values, JSON and local storage\<close>

text \<open>
  The vessel list travels through \<^verbatim>\<open>JSON.stringify\<close>, \<^verbatim>\<open>localStorage\<close> and
  \<^verbatim>\<open>JSON.parse\<close>, and TypeScript's types are erased at run time, so what a view reads back
  is an arbitrary JSON value. JavaScript numbers are modelled as reals, timestamps
  (\<^verbatim>\<open>Date.now()\<close>) as naturals.
\<close>

datatype jsval =
    JNull
  | JBool bool
  | JNum real
  | JStr string
  | JArr "jsval list"
  | JObj "(string \<times> jsval) list"

datatype error = SyntaxError | TypeError

text \<open>
  A text held under a storage key is represented by what \<^verbatim>\<open>JSON.parse\<close> makes of it:
  the empty string, a non-empty text that is not JSON, or the serialisation of a value.
\<close>

datatype item = EmptyText | Malformed | Ser jsval

definition JSON_parse :: "item \<Rightarrow> error + jsval" where
  "JSON_parse t = (case t of EmptyText \<Rightarrow> Inl SyntaxError | Malformed \<Rightarrow> Inl SyntaxError | Ser v \<Rightarrow> Inr v)"

definition JSON_stringify :: "jsval \<Rightarrow> item" where
  "JSON_stringify v = Ser v"

text \<open>Truthiness of \<^verbatim>\<open>localStorage.getItem(key)\<close>: \<^verbatim>\<open>null\<close> and the empty string are falsy.\<close>

definition truthy :: "item option \<Rightarrow> bool" where
  "truthy r = (case r of None \<Rightarrow> False | Some EmptyText \<Rightarrow> False | Some _ \<Rightarrow> True)"

text \<open>
  Reading a property \<^verbatim>\<open>v.name\<close>, for the names the program uses on list elements
  (none of them lives on a prototype): \<^verbatim>\<open>null\<close> throws, an object yields the property
  or \<^verbatim>\<open>undefined\<close> (\<open>None\<close>), every other value yields \<^verbatim>\<open>undefined\<close>.
\<close>

fun get_field :: "jsval \<Rightarrow> string \<Rightarrow> error + jsval option" where
  "get_field JNull k = Inl TypeError"
| "get_field (JObj kvs) k = Inr (map_of kvs k)"
| "get_field v k = Inr None"

text \<open>Object spread followed by one property, \<^verbatim>\<open>{...o, k: v}\<close>, on the property list.\<close>

fun set_prop :: "string \<Rightarrow> jsval \<Rightarrow> (string \<times> jsval) list \<Rightarrow> (string \<times> jsval) list" where
  "set_prop k v [] = [(k, v)]"
| "set_prop k v ((k', v') # kvs) = (if k' = k then (k, v) # kvs else (k', v') # set_prop k v kvs)"

text \<open>\<^verbatim>\<open>Array.prototype.map\<close> with a callback that may throw: the first throw ends the loop.\<close>

fun map_err :: "('a \<Rightarrow> error + 'b) \<Rightarrow> 'a list \<Rightarrow> error + 'b list" where
  "map_err f [] = Inr []"
| "map_err f (x # xs) =
     (case f x of
        Inl e \<Rightarrow> Inl e
      | Inr y \<Rightarrow> (case map_err f xs of Inl e \<Rightarrow> Inl e | Inr ys \<Rightarrow> Inr (y # ys)))"

text \<open>\<^verbatim>\<open>Array.prototype.findIndex\<close>; \<open>None\<close> is the result \<^verbatim>\<open>-1\<close>.\<close>

fun findIndex :: "('a \<Rightarrow> error + bool) \<Rightarrow> 'a list \<Rightarrow> error + nat option" where
  "findIndex p [] = Inr None"
| "findIndex p (x # xs) =
     (case p x of
        Inl e \<Rightarrow> Inl e
      | Inr True \<Rightarrow> Inr (Some 0)
      | Inr False \<Rightarrow>
          (case findIndex p xs of
             Inl e \<Rightarrow> Inl e
           | Inr None \<Rightarrow> Inr None
           | Inr (Some i) \<Rightarrow> Inr (Some (Suc i))))"

section \<open>Data model of the root view\<close>

datatype boat_status = Safe | Warning | Danger

record geo_point =
  lat :: real
  lng :: real
  timestamp :: nat

record BoatData =
  aisId :: string
  boatId :: string
  location :: geo_point
  status :: boat_status
  speed :: real
  heading :: real
  lastUpdate :: nat
  fishermanName :: "string option"
  contactInfo :: "string option"

text \<open>
  The coast-guard record has the same position and kinematic fields; they carry the
  prefix \<open>cg_\<close> here because record fields share one name space.
\<close>

record CoastGuardVessel =
  vesselId :: string
  vesselName :: string
  cg_location :: geo_point
  cg_speed :: real
  cg_heading :: real
  cg_lastUpdate :: nat
  cg_isTracking :: bool

definition of_status :: "boat_status \<Rightarrow> jsval" where
  "of_status st = (case st of Safe \<Rightarrow> JStr ''safe'' | Warning \<Rightarrow> JStr ''warning'' | Danger \<Rightarrow> JStr ''danger'')"

definition of_point :: "geo_point \<Rightarrow> jsval" where
  "of_point p = JObj [(''lat'', JNum (lat p)), (''lng'', JNum (lng p)),
                      (''timestamp'', JNum (real (timestamp p)))]"

definition opt_prop :: "string \<Rightarrow> string option \<Rightarrow> (string \<times> jsval) list" where
  "opt_prop k v = (case v of None \<Rightarrow> [] | Some s \<Rightarrow> [(k, JStr s)])"

text \<open>The JavaScript object of a vessel record; an absent optional property is left out.\<close>

definition of_boat :: "BoatData \<Rightarrow> jsval" where
  "of_boat b = JObj ([(''aisId'', JStr (aisId b)), (''boatId'', JStr (boatId b)),
                      (''location'', of_point (location b)), (''status'', of_status (status b)),
                      (''speed'', JNum (speed b)), (''heading'', JNum (heading b)),
                      (''lastUpdate'', JNum (real (lastUpdate b)))]
                     @ opt_prop ''fishermanName'' (fishermanName b)
                     @ opt_prop ''contactInfo'' (contactInfo b))"

section \<open>State of the root view and its observable effects\<close>

datatype effect =
    SetItem string item
  | DispatchEvent string
  | ConsoleLog
  | ConsoleWarn
  | ConsoleError

record app =
  boatData :: "BoatData option"
  allBoats :: "jsval list"
  isRegistered :: bool
  isTracking :: bool
  coastGuardVessel :: "CoastGuardVessel option"
  isCoastGuardTracking :: bool
  localStorage :: "string \<Rightarrow> item option"
  trace :: "effect list"

text \<open>A handler either runs to its end or throws, leaving the state it had reached.\<close>

datatype outcome = Done app | Threw error app

definition emit :: "effect \<Rightarrow> app \<Rightarrow> app" where
  "emit e s = s\<lparr>trace := trace s @ [e]\<rparr>"

text \<open>\<^verbatim>\<open>localStorage.setItem\<close>, taken to succeed (the storage has room for the value).\<close>

definition setItem :: "string \<Rightarrow> item \<Rightarrow> app \<Rightarrow> app" where
  "setItem k v s = emit (SetItem k v) (s\<lparr>localStorage := (localStorage s)(k \<mapsto> v)\<rparr>)"

definition dispatchEvent :: "string \<Rightarrow> app \<Rightarrow> app" where
  "dispatchEvent n s = emit (DispatchEvent n) s"

subsection \<open>Reading the mirror\<close>

text \<open>
  The body of the \<^verbatim>\<open>try\<close> block of \<^verbatim>\<open>loadVesselsFromStorage\<close>: parse, log
  \<^verbatim>\<open>vessels.length\<close> (throws on \<^verbatim>\<open>null\<close>), log
  \<^verbatim>\<open>vessels.map(v => ({aisId: v.aisId, ...}))\<close> (throws unless \<^verbatim>\<open>vessels\<close> is an array
  without \<^verbatim>\<open>null\<close> entries), then \<^verbatim>\<open>setAllBoats(vessels)\<close>.
\<close>

definition vessel_details :: "jsval \<Rightarrow> error + unit" where
  "vessel_details v =
     (case get_field v ''aisId'' of
        Inl e \<Rightarrow> Inl e
      | Inr _ \<Rightarrow> (case get_field v ''boatId'' of
          Inl e \<Rightarrow> Inl e
        | Inr _ \<Rightarrow> (case get_field v ''fishermanName'' of Inl e \<Rightarrow> Inl e | Inr _ \<Rightarrow> Inr ())))"

definition load_try :: "item \<Rightarrow> app \<Rightarrow> outcome" where
  "load_try txt s =
     (case JSON_parse txt of
        Inl e \<Rightarrow> Threw e s
      | Inr vessels \<Rightarrow>
          if vessels = JNull then Threw TypeError s
          else let s1 = emit ConsoleLog s in
            (case vessels of
               JArr xs \<Rightarrow>
                 (case map_err vessel_details xs of
                    Inl e \<Rightarrow> Threw e s1
                  | Inr _ \<Rightarrow> Done ((emit ConsoleLog s1)\<lparr>allBoats := xs\<rparr>))
             | _ \<Rightarrow> Threw TypeError s1))"

definition loadVesselsFromStorage :: "app \<Rightarrow> outcome" where
  "loadVesselsFromStorage s =
     (let storedVessels = localStorage s ''registeredVessels'' in
      if truthy storedVessels then
        (case load_try (the storedVessels) s of
           Done s' \<Rightarrow> Done s'
         | Threw e s' \<Rightarrow> Done ((emit ConsoleError s')\<lparr>allBoats := []\<rparr>))
      else Done ((emit ConsoleLog s)\<lparr>allBoats := []\<rparr>))"

text \<open>
  The wrappers of \<^verbatim>\<open>safeAsync.ts\<close>. \<^verbatim>\<open>safeSync\<close> runs an operation; when it throws, it
  logs with \<^verbatim>\<open>console.error\<close>, calls the error callback if one is given (a callback that
  throws is logged with \<^verbatim>\<open>console.error\<close> too) and returns the fallback. A callback
  yields the effects it has, or throws. \<^verbatim>\<open>safeJSON.parse\<close> passes a callback that logs
  with \<^verbatim>\<open>console.warn\<close>.
\<close>

definition safeSync ::
  "error + 'a \<Rightarrow> 'a \<Rightarrow> (error \<Rightarrow> error + effect list) option \<Rightarrow> 'a \<times> effect list" where
  "safeSync operation fallback onError =
     (case operation of
        Inr v \<Rightarrow> (v, [])
      | Inl e \<Rightarrow>
          (fallback,
           ConsoleError #
             (case onError of
                None \<Rightarrow> []
              | Some callback \<Rightarrow>
                  (case callback e of
                     Inr effects \<Rightarrow> effects
                   | Inl callbackError \<Rightarrow> [ConsoleError]))))"

definition warn_parse_failure :: "error \<Rightarrow> error + effect list" where
  "warn_parse_failure e = Inr [ConsoleWarn]"

definition safeJSON_parse :: "item \<Rightarrow> jsval \<Rightarrow> jsval \<times> effect list" where
  "safeJSON_parse txt fallback = safeSync (JSON_parse txt) fallback (Some warn_parse_failure)"

subsection \<open>The coast-guard record\<close>

text \<open>
  \<^verbatim>\<open>updateCoastGuardLocation(lat, lng, speed?, heading?)\<close>; \<open>None\<close> is an argument left
  \<^verbatim>\<open>undefined\<close>, \<open>t1\<close> and \<open>t2\<close> are the two readings of \<^verbatim>\<open>Date.now()\<close>.
\<close>

definition updateCoastGuardLocation ::
  "real \<Rightarrow> real \<Rightarrow> real option \<Rightarrow> real option \<Rightarrow> nat \<Rightarrow> nat \<Rightarrow> app \<Rightarrow> app" where
  "updateCoastGuardLocation la lo sp hdg t1 t2 s =
     (case coastGuardVessel s of
        None \<Rightarrow> s
      | Some v \<Rightarrow>
          let updatedVessel = v\<lparr>cg_location := \<lparr>lat = la, lng = lo, timestamp = t1\<rparr>,
                                 cg_speed := (case sp of Some x \<Rightarrow> x | None \<Rightarrow> cg_speed v),
                                 cg_heading := (case hdg of Some h \<Rightarrow> h | None \<Rightarrow> cg_heading v),
                                 cg_lastUpdate := t2\<rparr>
          in (emit ConsoleLog s)\<lparr>coastGuardVessel := Some updatedVessel\<rparr>)"

definition toggleCoastGuardTracking :: "bool \<Rightarrow> app \<Rightarrow> app" where
  "toggleCoastGuardTracking enabled s =
     (let s1 = s\<lparr>isCoastGuardTracking := enabled\<rparr> in
      case coastGuardVessel s1 of
        None \<Rightarrow> s1
      | Some v \<Rightarrow> s1\<lparr>coastGuardVessel := Some (v\<lparr>cg_isTracking := enabled\<rparr>)\<rparr>)"

subsection \<open>Registration and the mirror upsert\<close>

text \<open>The callback \<^verbatim>\<open>boat => boat.aisId === aisId\<close>.\<close>

definition has_aisId :: "string \<Rightarrow> jsval \<Rightarrow> error + bool" where
  "has_aisId a v = (case get_field v ''aisId'' of Inl e \<Rightarrow> Inl e | Inr f \<Rightarrow> Inr (f = Some (JStr a)))"

text \<open>
  Replace the first entry with the record's identifier, or append: the source does it
  twice, in place on the parsed array and on a copy of the in-memory list.
\<close>

definition upsert_list :: "BoatData \<Rightarrow> jsval list \<Rightarrow> error + jsval list" where
  "upsert_list newBoat vessels =
     (case findIndex (has_aisId (aisId newBoat)) vessels of
        Inl e \<Rightarrow> Inl e
      | Inr (Some existingIndex) \<Rightarrow> Inr (vessels[existingIndex := of_boat newBoat])
      | Inr None \<Rightarrow> Inr (vessels @ [of_boat newBoat]))"

text \<open>
  The storage half of \<^verbatim>\<open>handleFishermanRegistration\<close>: read and parse the mirror (a parse
  failure is logged and replaced by the empty list), upsert, write the list back, dispatch
  \<^verbatim>\<open>vesselsUpdated\<close>. \<^verbatim>\<open>findIndex\<close> is not a function of a parsed value that is no array.
\<close>

definition mirror_upsert :: "BoatData \<Rightarrow> app \<Rightarrow> outcome" where
  "mirror_upsert newBoat s =
     (let storedVessels = localStorage s ''registeredVessels'';
          (vessels, s1) =
            (if truthy storedVessels then
               (case JSON_parse (the storedVessels) of
                  Inl e \<Rightarrow> (JArr [], emit ConsoleError s)
                | Inr v \<Rightarrow> (v, s))
             else (JArr [], s))
      in case vessels of
           JArr xs \<Rightarrow>
             (case upsert_list newBoat xs of
                Inl e \<Rightarrow> Threw e s1
              | Inr ys \<Rightarrow>
                  Done (dispatchEvent ''vesselsUpdated''
                          (setItem ''registeredVessels'' (JSON_stringify (JArr ys)) s1)))
         | _ \<Rightarrow> Threw TypeError s1)"

definition newBoat_of :: "string \<Rightarrow> string \<Rightarrow> string \<Rightarrow> string \<Rightarrow> nat \<Rightarrow> nat \<Rightarrow> BoatData" where
  "newBoat_of a b n c t1 t2 =
     \<lparr>aisId = a, boatId = b, location = \<lparr>lat = 0, lng = 0, timestamp = t1\<rparr>,
      status = Safe, speed = 0, heading = 0, lastUpdate = t2,
      fishermanName = Some n, contactInfo = Some c\<rparr>"

definition handleFishermanRegistration ::
  "string \<Rightarrow> string \<Rightarrow> string \<Rightarrow> string \<Rightarrow> nat \<Rightarrow> nat \<Rightarrow> app \<Rightarrow> outcome" where
  "handleFishermanRegistration a b n c t1 t2 s =
     (let newBoat = newBoat_of a b n c t1 t2;
          s1 = s\<lparr>boatData := Some newBoat, isRegistered := True, isTracking := True\<rparr>
      in case mirror_upsert newBoat s1 of
           Threw e s2 \<Rightarrow> Threw e s2
         | Done s2 \<Rightarrow>
             (case upsert_list newBoat (allBoats s2) of
                Inl e \<Rightarrow> Threw e s2
              | Inr updated \<Rightarrow> Done (emit ConsoleLog (s2\<lparr>allBoats := updated\<rparr>))))"

subsection \<open>Location and status updates\<close>

text \<open>
  The updater passed to \<^verbatim>\<open>setAllBoats\<close> by the three update handlers: map the list, write
  it to the mirror, dispatch \<^verbatim>\<open>vesselsUpdated\<close>, return the list. React applies queued
  state updates in the order of the calls; here each is applied where it is called.
\<close>

definition write_back :: "(jsval \<Rightarrow> error + jsval) \<Rightarrow> app \<Rightarrow> outcome" where
  "write_back f s =
     (case map_err f (allBoats s) of
        Inl e \<Rightarrow> Threw e s
      | Inr updated \<Rightarrow>
          Done ((dispatchEvent ''vesselsUpdated''
                   (setItem ''registeredVessels'' (JSON_stringify (JArr updated)) s))
                \<lparr>allBoats := updated\<rparr>))"

text \<open>\<^verbatim>\<open>boat => boat.aisId === boatData.aisId ? updatedBoat : boat\<close>\<close>

definition replace_own :: "string \<Rightarrow> BoatData \<Rightarrow> jsval \<Rightarrow> error + jsval" where
  "replace_own a updatedBoat boat =
     (case has_aisId a boat of
        Inl e \<Rightarrow> Inl e
      | Inr c \<Rightarrow> Inr (if c then of_boat updatedBoat else boat))"

definition updateLocation :: "real \<Rightarrow> real \<Rightarrow> nat \<Rightarrow> nat \<Rightarrow> app \<Rightarrow> outcome" where
  "updateLocation la lo t1 t2 s =
     (case boatData s of
        None \<Rightarrow> Done s
      | Some b \<Rightarrow>
          let updatedBoat = b\<lparr>location := \<lparr>lat = la, lng = lo, timestamp = t1\<rparr>, lastUpdate := t2\<rparr>;
              s1 = (emit ConsoleLog s)\<lparr>boatData := Some updatedBoat\<rparr>
          in write_back (replace_own (aisId b) updatedBoat) s1)"

definition updateBoatStatus :: "boat_status \<Rightarrow> app \<Rightarrow> outcome" where
  "updateBoatStatus st s =
     (case boatData s of
        None \<Rightarrow> Done s
      | Some b \<Rightarrow>
          let updatedBoat = b\<lparr>status := st\<rparr>;
              s1 = s\<lparr>boatData := Some updatedBoat\<rparr>
          in write_back (replace_own (aisId b) updatedBoat) s1)"

text \<open>
  \<^verbatim>\<open>boat => boat.aisId === aisId ? { ...boat, status } : boat\<close>. Only an object can have
  the identifier, so the spread is the one of an object.
\<close>

definition spread_status :: "boat_status \<Rightarrow> jsval \<Rightarrow> jsval" where
  "spread_status st boat =
     (case boat of
        JObj kvs \<Rightarrow> JObj (set_prop ''status'' (of_status st) kvs)
      | _ \<Rightarrow> JObj [(''status'', of_status st)])"

definition restatus :: "string \<Rightarrow> boat_status \<Rightarrow> jsval \<Rightarrow> error + jsval" where
  "restatus a st boat =
     (case has_aisId a boat of
        Inl e \<Rightarrow> Inl e
      | Inr c \<Rightarrow> Inr (if c then spread_status st boat else boat))"

definition updateBoatStatusByCoastGuard :: "string \<Rightarrow> boat_status \<Rightarrow> app \<Rightarrow> outcome" where
  "updateBoatStatusByCoastGuard a st s =
     (case write_back (restatus a st) s of
        Threw e s1 \<Rightarrow> Threw e s1
      | Done s1 \<Rightarrow>
          (case boatData s1 of
             None \<Rightarrow> Done s1
           | Some b \<Rightarrow>
               if aisId b = a then Done (s1\<lparr>boatData := Some (b\<lparr>status := st\<rparr>)\<rparr>)
               else Done s1))"

text \<open>The state a freshly mounted root view starts from, over a given storage.\<close>

definition initial_app :: "(string \<Rightarrow> item option) \<Rightarrow> app" where
  "initial_app store =
     \<lparr>boatData = None, allBoats = [], isRegistered = False, isTracking = False,
      coastGuardVessel = None, isCoastGuardTracking = False,
      localStorage = store, trace = []\<rparr>"

subsection \<open>Handlers in sequence\<close>

text \<open>
  The handlers the user interface and the trackers call, one after the other on the single
  event-loop thread. A handler that throws leaves the state it had reached.
\<close>

datatype action =
    Register string string string string nat nat
  | Locate real real nat nat
  | SetStatus boat_status
  | SetStatusByCoastGuard string boat_status
  | Reload
  | LocateCoastGuard real real "real option" "real option" nat nat
  | ToggleCoastGuard bool

definition final :: "outcome \<Rightarrow> app" where
  "final r = (case r of Done s \<Rightarrow> s | Threw e s \<Rightarrow> s)"

fun perform :: "action \<Rightarrow> app \<Rightarrow> app" where
  "perform (Register a b n c t1 t2) s = final (handleFishermanRegistration a b n c t1 t2 s)"
| "perform (Locate la lo t1 t2) s = final (updateLocation la lo t1 t2 s)"
| "perform (SetStatus st) s = final (updateBoatStatus st s)"
| "perform (SetStatusByCoastGuard a st) s = final (updateBoatStatusByCoastGuard a st s)"
| "perform Reload s = final (loadVesselsFromStorage s)"
| "perform (LocateCoastGuard la lo sp hdg t1 t2) s = updateCoastGuardLocation la lo sp hdg t1 t2 s"
| "perform (ToggleCoastGuard en) s = toggleCoastGuardTracking en s"

fun run :: "action list \<Rightarrow> app \<Rightarrow> app" where
  "run [] s = s"
| "run (a # as) s = run as (perform a s)"

text \<open>
  In a trace, every write of the mirror key is immediately followed by the dispatch of
  \<^verbatim>\<open>vesselsUpdated\<close>.
\<close>

fun broadcast_follows :: "effect list \<Rightarrow> bool" where
  "broadcast_follows [] = True"
| "broadcast_follows (SetItem k v # es) =
     (if k = ''registeredVessels''
      then (case es of
              DispatchEvent n # es' \<Rightarrow> n = ''vesselsUpdated'' \<and> broadcast_follows es'
            | _ \<Rightarrow> False)
      else broadcast_follows es)"
| "broadcast_follows (e # es) = broadcast_follows es"

definition is_write :: "effect \<Rightarrow> bool" where
  "is_write e = (case e of SetItem k v \<Rightarrow> True | _ \<Rightarrow> False)"

subsection \<open>Upserts in sequence\<close>

fun upserts :: "BoatData list \<Rightarrow> app \<Rightarrow> outcome" where
  "upserts [] s = Done s"
| "upserts (b # bs) s =
     (case mirror_upsert b s of Done s' \<Rightarrow> upserts bs s' | Threw e s' \<Rightarrow> Threw e s')"

text \<open>
  The mirror holds the list \<open>vs\<close> of vessel records: its text is the serialisation of
  their objects, or the key is absent, empty or unparseable and the list is empty.
\<close>

definition mirror_holds :: "BoatData list \<Rightarrow> app \<Rightarrow> bool" where
  "mirror_holds vs s =
     (case localStorage s ''registeredVessels'' of
        None \<Rightarrow> vs = []
      | Some EmptyText \<Rightarrow> vs = []
      | Some Malformed \<Rightarrow> vs = []
      | Some (Ser v) \<Rightarrow> v = JArr (map of_boat vs))"

text \<open>Index of the first record with an identifier, and the upsert, on records.\<close>

fun idx :: "string \<Rightarrow> BoatData list \<Rightarrow> nat option" where
  "idx a [] = None"
| "idx a (v # vs) = (if aisId v = a then Some 0 else map_option Suc (idx a vs))"

fun upsertT :: "BoatData \<Rightarrow> BoatData list \<Rightarrow> BoatData list" where
  "upsertT b [] = [b]"
| "upsertT b (v # vs) = (if aisId v = aisId b then b # vs else v # upsertT b vs)"

text \<open>The mirror can be read and upserted: no text, or an array without \<^verbatim>\<open>null\<close> entries.\<close>

definition mirror_readable :: "app \<Rightarrow> bool" where
  "mirror_readable s =
     (case localStorage s ''registeredVessels'' of
        None \<Rightarrow> True
      | Some EmptyText \<Rightarrow> True
      | Some Malformed \<Rightarrow> True
      | Some (Ser v) \<Rightarrow> (case v of JArr xs \<Rightarrow> JNull \<notin> set xs | _ \<Rightarrow> False))"

section \<open>The shared position source\<close>

record GeolocationCoordinates =
  latitude :: real
  longitude :: real
  accuracy :: real
  coords_speed :: "real option"
  coords_heading :: "real option"

record GeolocationPosition =
  coords :: GeolocationCoordinates
  pos_timestamp :: nat

text \<open>
  A callback is a function object; the sets of the service compare object identity, so a
  callback is represented by a number. What a callback does is outside the service: its
  invocations are recorded. A JavaScript \<^verbatim>\<open>Set\<close> keeps insertion order.
\<close>

type_synonym callback = nat

datatype invocation = OnPosition callback GeolocationPosition | OnError callback nat

text \<open>
  The service (\<^verbatim>\<open>currentPosition\<close> to \<^verbatim>\<open>isWatching\<close>) together with the platform's
  \<^verbatim>\<open>navigator.geolocation\<close>: whether it exists, the identifiers of the open watches, the
  next identifier, and how often \<^verbatim>\<open>watchPosition\<close> and \<^verbatim>\<open>clearWatch\<close> were called.
\<close>

record source =
  currentPosition :: "GeolocationPosition option"
  callbacks :: "callback list"
  errorCallbacks :: "callback list"
  watchId :: "nat option"
  isWatching :: bool
  nav_available :: bool
  nav_watches :: "nat list"
  nav_next :: nat
  nav_opened :: nat
  nav_cleared :: nat
  calls :: "invocation list"

definition new_source :: "bool \<Rightarrow> source" where
  "new_source avail =
     \<lparr>currentPosition = None, callbacks = [], errorCallbacks = [], watchId = None,
      isWatching = False, nav_available = avail, nav_watches = [], nav_next = 1,
      nav_opened = 0, nav_cleared = 0, calls = []\<rparr>"

definition set_add :: "'a \<Rightarrow> 'a list \<Rightarrow> 'a list" where
  "set_add x xs = (if x \<in> set xs then xs else xs @ [x])"

definition set_delete :: "'a \<Rightarrow> 'a list \<Rightarrow> 'a list" where
  "set_delete x xs = removeAll x xs"

definition startWatching :: "source \<Rightarrow> source" where
  "startWatching w =
     (if isWatching w \<or> \<not> nav_available w then w
      else w\<lparr>isWatching := True,
             watchId := Some (nav_next w),
             nav_watches := nav_watches w @ [nav_next w],
             nav_next := Suc (nav_next w),
             nav_opened := Suc (nav_opened w)\<rparr>)"

definition stopWatching :: "source \<Rightarrow> source" where
  "stopWatching w =
     (let w1 = (case watchId w of
                  Some i \<Rightarrow> w\<lparr>nav_watches := removeAll i (nav_watches w),
                               nav_cleared := Suc (nav_cleared w),
                               watchId := None\<rparr>
                | None \<Rightarrow> w)
      in w1\<lparr>isWatching := False\<rparr>)"

text \<open>The function \<^verbatim>\<open>subscribe\<close> returns: the empty one, or the one that removes the pair.\<close>

datatype unsubscribe = Noop | Remove callback callback

definition subscribe :: "callback \<Rightarrow> callback \<Rightarrow> source \<Rightarrow> source \<times> unsubscribe" where
  "subscribe onPosition onError w =
     (if onPosition \<in> set (callbacks w) then (w, Noop)
      else
        let w1 = w\<lparr>callbacks := set_add onPosition (callbacks w),
                    errorCallbacks := set_add onError (errorCallbacks w)\<rparr>;
            w2 = (case currentPosition w1 of
                    Some p \<Rightarrow> w1\<lparr>calls := calls w1 @ [OnPosition onPosition p]\<rparr>
                  | None \<Rightarrow> w1);
            w3 = (if \<not> isWatching w2 then startWatching w2 else w2)
        in (w3, Remove onPosition onError))"

definition call_unsubscribe :: "unsubscribe \<Rightarrow> source \<Rightarrow> source" where
  "call_unsubscribe u w =
     (case u of
        Noop \<Rightarrow> w
      | Remove onPosition onError \<Rightarrow>
          let w1 = w\<lparr>callbacks := set_delete onPosition (callbacks w),
                      errorCallbacks := set_delete onError (errorCallbacks w)\<rparr>
          in if length (callbacks w1) = 0 then stopWatching w1 else w1)"

text \<open>The two callbacks the service hands to \<^verbatim>\<open>watchPosition\<close>.\<close>

definition on_watch_position :: "GeolocationPosition \<Rightarrow> source \<Rightarrow> source" where
  "on_watch_position p w =
     (let w1 = w\<lparr>currentPosition := Some p\<rparr>
      in w1\<lparr>calls := calls w1 @ map (\<lambda>c. OnPosition c p) (callbacks w1)\<rparr>)"

definition on_watch_error :: "nat \<Rightarrow> source \<Rightarrow> source" where
  "on_watch_error code w = w\<lparr>calls := calls w @ map (\<lambda>c. OnError c code) (errorCallbacks w)\<rparr>"

text \<open>
  What can happen to the service: its two operations, and the platform reporting a sample
  or a failure to every open watch.
\<close>

datatype source_event =
    Subscribe callback callback
  | Unsubscribe unsubscribe
  | Sample GeolocationPosition
  | Failure nat

fun source_step :: "source_event \<Rightarrow> source \<Rightarrow> source" where
  "source_step (Subscribe f e) w = fst (subscribe f e w)"
| "source_step (Unsubscribe u) w = call_unsubscribe u w"
| "source_step (Sample p) w = fold (\<lambda>i. on_watch_position p) (nav_watches w) w"
| "source_step (Failure c) w = fold (\<lambda>i. on_watch_error c) (nav_watches w) w"

fun source_run :: "source_event list \<Rightarrow> source \<Rightarrow> source" where
  "source_run [] w = w"
| "source_run (ev # evs) w = source_run evs (source_step ev w)"

definition one_watch :: "source \<Rightarrow> bool" where
  "one_watch w =
     (nav_watches w = (case watchId w of None \<Rightarrow> [] | Some i \<Rightarrow> [i]) \<and>
      isWatching w = (watchId w \<noteq> None) \<and>
      (watchId w \<noteq> None) = (nav_available w \<and> callbacks w \<noteq> []) \<and>
      nav_opened w = nav_cleared w + length (nav_watches w))"

section \<open>The trackers\<close>

datatype location_status = Requesting | Granted | Denied | Unavailable | Timeout

text \<open>
  The state of the fisherman's tracker, and the coast-guard tracker's, which has speed and
  heading in addition. The fields carry the prefix \<open>trk_\<close> where the name is taken.
\<close>

record tracker =
  locationStatus :: location_status
  trk_accuracy :: real
  trk_lastUpdate :: nat
  errorMessage :: string
  retryAttempts :: nat

record cg_tracker = tracker +
  trk_speed :: real
  trk_heading :: real

text \<open>A request to the platform: high accuracy, timeout and maximum age in milliseconds.\<close>

datatype geo_request =
    GetCurrentPosition bool nat nat
  | WatchPosition bool nat nat
  | ClearWatch

text \<open>
  A mounted tracker: its state, the value of the property \<^verbatim>\<open>isTracking\<close> its effect last ran with
  (the effect's only dependency), whether that run returned a cleanup, and the requests
  made to the platform so far.
\<close>

record 'a mounted =
  trk :: 'a
  deps :: "bool option"
  cleanup :: bool
  issued :: "geo_request list"

text \<open>
  The body of the effect. \<open>support\<close> is the result of \<^verbatim>\<open>checkGeolocationSupport()\<close>.
\<close>

definition tracking_effect ::
  "bool \<Rightarrow> bool \<times> string \<Rightarrow> ('a tracker_scheme) mounted \<Rightarrow> ('a tracker_scheme) mounted" where
  "tracking_effect tracking support m =
     (if \<not> tracking then m\<lparr>cleanup := False\<rparr>
      else if \<not> fst support then
        m\<lparr>trk := (trk m)\<lparr>locationStatus := Unavailable, errorMessage := snd support\<rparr>,
          cleanup := False\<rparr>
      else m\<lparr>issued := issued m @ [GetCurrentPosition True 5000 0, WatchPosition True 10000 1000],
             cleanup := True\<rparr>)"

text \<open>
  A render of the tracker: React runs the effect after the first render and after a render
  in which \<^verbatim>\<open>isTracking\<close> differs from the last run, the cleanup of the last run first.
\<close>

definition render ::
  "bool \<Rightarrow> bool \<times> string \<Rightarrow> ('a tracker_scheme) mounted \<Rightarrow> ('a tracker_scheme) mounted" where
  "render tracking support m =
     (if deps m = Some tracking then m
      else
        let m1 = (if cleanup m then m\<lparr>issued := issued m @ [ClearWatch]\<rparr> else m)
        in tracking_effect tracking support (m1\<lparr>deps := Some tracking\<rparr>))"

definition handleRetry :: "'a tracker_scheme \<Rightarrow> 'a tracker_scheme" where
  "handleRetry t = t\<lparr>locationStatus := Requesting, errorMessage := [], retryAttempts := 0\<rparr>"

text \<open>
  The error callback of \<^verbatim>\<open>watchPosition\<close>; \<open>msg\<close> is \<^verbatim>\<open>getGeolocationErrorMessage(error)\<close>.
\<close>

definition watch_error :: "nat \<Rightarrow> string \<Rightarrow> 'a tracker_scheme \<Rightarrow> 'a tracker_scheme" where
  "watch_error code msg t =
     (let t1 = t\<lparr>errorMessage := msg\<rparr> in
      if code = 1 then t1\<lparr>locationStatus := Denied\<rparr>
      else if code = 2 then t1\<lparr>locationStatus := Unavailable\<rparr>
      else if code = 3 then t1\<lparr>locationStatus := Timeout, retryAttempts := retryAttempts t1 + 1\<rparr>
      else t1\<lparr>locationStatus := Denied\<rparr>)"

text \<open>
  The success callbacks of the coast-guard tracker (both the one-shot and the watch one
  compute the same): the new tracker state and the arguments of \<^verbatim>\<open>onLocationUpdate\<close>.
\<close>

definition speedKnots :: "GeolocationPosition \<Rightarrow> real" where
  "speedKnots p = (case coords_speed (coords p) of Some v \<Rightarrow> v * 1.94384 | None \<Rightarrow> 0)"

definition headingDegrees :: "GeolocationPosition \<Rightarrow> real" where
  "headingDegrees p = (case coords_heading (coords p) of Some h \<Rightarrow> h | None \<Rightarrow> 0)"

definition cg_position :: "GeolocationPosition \<Rightarrow> nat \<Rightarrow> cg_tracker \<Rightarrow> cg_tracker" where
  "cg_position p now t =
     t\<lparr>locationStatus := Granted, trk_accuracy := accuracy (coords p), trk_lastUpdate := now,
       trk_speed := speedKnots p, trk_heading := headingDegrees p\<rparr>"

text \<open>
  A sample in the coast-guard view: the tracker's callback, then the root view's
  \<^verbatim>\<open>updateCoastGuardLocation\<close> with the four arguments the tracker passes.
\<close>

definition cg_sample ::
  "GeolocationPosition \<Rightarrow> nat \<Rightarrow> nat \<Rightarrow> nat \<Rightarrow> cg_tracker \<times> app \<Rightarrow> cg_tracker \<times> app" where
  "cg_sample p now t1 t2 ts =
     (cg_position p now (fst ts),
      updateCoastGuardLocation (latitude (coords p)) (longitude (coords p))
        (Some (speedKnots p)) (Some (headingDegrees p)) t1 t2 (snd ts))"

text \<open>
  The fisherman's tracker: its callback passes latitude and longitude only, to
  \<^verbatim>\<open>updateLocation(lat, lng)\<close>.
\<close>

definition fisherman_position :: "GeolocationPosition \<Rightarrow> nat \<Rightarrow> tracker \<Rightarrow> tracker" where
  "fisherman_position p now t =
     t\<lparr>locationStatus := Granted, trk_accuracy := accuracy (coords p), trk_lastUpdate := now\<rparr>"

definition fisherman_sample ::
  "GeolocationPosition \<Rightarrow> nat \<Rightarrow> nat \<Rightarrow> nat \<Rightarrow> tracker \<times> app \<Rightarrow> tracker \<times> outcome" where
  "fisherman_sample p now t1 t2 ts =
     (fisherman_position p now (fst ts),
      updateLocation (latitude (coords p)) (longitude (coords p)) t1 t2 (snd ts))"

definition new_tracker :: tracker where
  "new_tracker = \<lparr>locationStatus = Requesting, trk_accuracy = 0, trk_lastUpdate = 0,
                  errorMessage = [], retryAttempts = 0\<rparr>"

definition new_cg_tracker :: cg_tracker where
  "new_cg_tracker = \<lparr>locationStatus = Requesting, trk_accuracy = 0, trk_lastUpdate = 0,
                     errorMessage = [], retryAttempts = 0, trk_speed = 0, trk_heading = 0\<rparr>"

definition mount :: "'a \<Rightarrow> 'a mounted" where
  "mount t = \<lparr>trk = t, deps = None, cleanup = False, issued = []\<rparr>"

text \<open>
  What happens to a mounted tracker. A click on \<^verbatim>\<open>Try Again\<close> or \<^verbatim>\<open>Retry\<close> runs
  \<^verbatim>\<open>handleRetry\<close>, a failure reported to the watch runs its error callback; either sets
  state, so the tracker renders again with the property it had. A reload of the vessel list
  in the root view (poll, storage event, broadcast) renders the tracker again as well.
\<close>

definition retry_click ::
  "bool \<Rightarrow> bool \<times> string \<Rightarrow> ('a tracker_scheme) mounted \<Rightarrow> ('a tracker_scheme) mounted" where
  "retry_click tracking support m = render tracking support (m\<lparr>trk := handleRetry (trk m)\<rparr>)"

definition watch_failed ::
  "nat \<Rightarrow> string \<Rightarrow> bool \<Rightarrow> bool \<times> string \<Rightarrow> ('a tracker_scheme) mounted \<Rightarrow> ('a tracker_scheme) mounted" where
  "watch_failed code msg tracking support m =
     render tracking support (m\<lparr>trk := watch_error code msg (trk m)\<rparr>)"

definition passive_render ::
  "bool \<Rightarrow> bool \<times> string \<Rightarrow> ('a tracker_scheme) mounted \<Rightarrow> ('a tracker_scheme) mounted" where
  "passive_render tracking support m = render tracking support m"

section \<open>Example inputs\<close>

definition empty_storage :: "string \<Rightarrow> item option" where
  "empty_storage k = None"

text \<open>The root view after one registration at time 1000, over an empty storage.\<close>

definition registered_example :: app where
  "registered_example =
     final (handleFishermanRegistration ''AIS-1'' ''B1'' ''Ann'' ''555'' 1000 1000
              (initial_app empty_storage))"

text \<open>A sample of a moving device: 5 metres per second, heading 90 degrees.\<close>

definition sample_moving :: GeolocationPosition where
  "sample_moving =
     \<lparr>coords = \<lparr>latitude = 12, longitude = 77, accuracy = 5,
                coords_speed = Some 5, coords_heading = Some 90\<rparr>,
      pos_timestamp = 2000\<rparr>"

section \<open>Properties of the mirror\<close>

subsection \<open>Upserts on lists of vessel records\<close>

lemma has_aisId_of_boat [simp]: "has_aisId a (of_boat b) = Inr (aisId b = a)"
  by (auto simp: has_aisId_def of_boat_def)

lemma findIndex_typed: "findIndex (has_aisId a) (map of_boat vs) = Inr (idx a vs)"
  by (induction vs) (auto split: option.splits)

lemma idx_bound: "idx a vs = Some i \<Longrightarrow> i < length vs"
  by (induction vs arbitrary: i) (auto split: if_splits)

lemma upsertT_idx:
  "map of_boat (upsertT b vs) =
     (case idx (aisId b) vs of Some i \<Rightarrow> (map of_boat vs)[i := of_boat b] | None \<Rightarrow> map of_boat vs @ [of_boat b])"
  by (induction vs) (auto split: option.splits)

lemma upsert_list_typed: "upsert_list b (map of_boat vs) = Inr (map of_boat (upsertT b vs))"
  by (simp add: upsert_list_def findIndex_typed upsertT_idx split: option.splits)

lemma ids_upsertT: "aisId ` set (upsertT b vs) = insert (aisId b) (aisId ` set vs)"
  by (induction vs) auto

lemma distinct_upsertT: "distinct (map aisId vs) \<Longrightarrow> distinct (map aisId (upsertT b vs))"
proof (induction vs)
  case Nil then show ?case by simp
next
  case (Cons v vs)
  have "aisId v \<noteq> aisId b \<Longrightarrow> aisId v \<notin> aisId ` set (upsertT b vs)"
    using Cons.prems by (simp add: ids_upsertT)
  with Cons show ?case by auto
qed

lemma upsertT_mem: "b \<in> set (upsertT b vs)"
  by (induction vs) auto

lemma upsertT_keeps: "v \<in> set vs \<Longrightarrow> aisId v \<noteq> aisId b \<Longrightarrow> v \<in> set (upsertT b vs)"
  by (induction vs) auto

lemma upsertT_in_place:
  "i < length vs \<Longrightarrow> aisId (vs ! i) = aisId b \<Longrightarrow> distinct (map aisId vs) \<Longrightarrow> upsertT b vs = vs[i := b]"
proof (induction vs arbitrary: i)
  case Nil then show ?case by simp
next
  case (Cons v vs)
  show ?case
  proof (cases i)
    case 0 with Cons.prems show ?thesis by simp
  next
    case (Suc j)
    with Cons.prems have j: "j < length vs" "aisId (vs ! j) = aisId b" "distinct (map aisId vs)" by auto
    from Cons.prems Suc j have "aisId v \<noteq> aisId b"
      by (metis distinct.simps(2) list.simps(9) nth_map nth_mem length_map)
    with Cons.IH[OF j] Suc show ?thesis by simp
  qed
qed

lemma mirror_upsert_typed:
  assumes "mirror_holds vs s"
  shows "\<exists>s'. mirror_upsert b s = Done s' \<and> mirror_holds (upsertT b vs) s'
     \<and> localStorage s' ''registeredVessels'' = Some (Ser (JArr (map of_boat (upsertT b vs))))"
proof (cases "localStorage s ''registeredVessels''")
  case None
  with assms have "vs = []" by (simp add: mirror_holds_def)
  with None show ?thesis
    using upsert_list_typed[of b "[]"]
    by (simp add: mirror_upsert_def truthy_def mirror_holds_def setItem_def dispatchEvent_def emit_def JSON_stringify_def)
next
  case (Some t)
  show ?thesis
  proof (cases t)
    case EmptyText
    with Some assms have "vs = []" by (simp add: mirror_holds_def)
    with Some EmptyText show ?thesis
      using upsert_list_typed[of b "[]"]
      by (simp add: mirror_upsert_def truthy_def mirror_holds_def setItem_def dispatchEvent_def emit_def JSON_stringify_def)
  next
    case Malformed
    with Some assms have "vs = []" by (simp add: mirror_holds_def)
    with Some Malformed show ?thesis
      using upsert_list_typed[of b "[]"]
      by (simp add: mirror_upsert_def truthy_def mirror_holds_def setItem_def dispatchEvent_def emit_def JSON_stringify_def JSON_parse_def)
  next
    case (Ser v)
    with Some assms have "v = JArr (map of_boat vs)" by (simp add: mirror_holds_def)
    with Some Ser show ?thesis
      using upsert_list_typed[of b vs]
      by (simp add: mirror_upsert_def truthy_def mirror_holds_def setItem_def dispatchEvent_def emit_def JSON_stringify_def JSON_parse_def)
  qed
qed

lemma upserts_typed:
  "mirror_holds vs s \<Longrightarrow> \<exists>s'. upserts bs s = Done s' \<and> mirror_holds (foldl (\<lambda>acc b. upsertT b acc) vs bs) s'"
proof (induction bs arbitrary: vs s)
  case Nil then show ?case by simp
next
  case (Cons b bs)
  from mirror_upsert_typed[OF Cons.prems, of b] obtain s1 where
    s1: "mirror_upsert b s = Done s1" "mirror_holds (upsertT b vs) s1" by blast
  from Cons.IH[OF s1(2)] s1(1) show ?case by simp
qed

lemma vessel_details_of_boat [simp]: "vessel_details (of_boat b) = Inr ()"
  by (simp add: vessel_details_def of_boat_def)

lemma map_err_details: "\<exists>us. map_err vessel_details (map of_boat vs) = Inr us"
  by (induction vs) auto

lemma load_typed:
  assumes "mirror_holds vs s"
  shows "\<exists>s'. loadVesselsFromStorage s = Done s' \<and> allBoats s' = map of_boat vs"
proof (cases "localStorage s ''registeredVessels''")
  case None
  with assms show ?thesis by (simp add: loadVesselsFromStorage_def truthy_def mirror_holds_def)
next
  case (Some t)
  show ?thesis
  proof (cases t)
    case (Ser v)
    with Some assms have v: "v = JArr (map of_boat vs)" by (simp add: mirror_holds_def)
    obtain us where "map_err vessel_details (map of_boat vs) = Inr us" using map_err_details by blast
    with Some Ser v show ?thesis
      by (simp add: loadVesselsFromStorage_def truthy_def load_try_def JSON_parse_def Let_def)
  qed (use Some assms in \<open>simp_all add: loadVesselsFromStorage_def truthy_def mirror_holds_def load_try_def JSON_parse_def\<close>)
qed

lemma fold_ids: "aisId ` set (foldl (\<lambda>acc b. upsertT b acc) vs bs) = aisId ` set vs \<union> aisId ` set bs"
  by (induction bs arbitrary: vs) (simp_all add: ids_upsertT)

lemma fold_distinct: "distinct (map aisId vs) \<Longrightarrow> distinct (map aisId (foldl (\<lambda>acc b. upsertT b acc) vs bs))"
  by (induction bs arbitrary: vs) (simp_all add: distinct_upsertT)

lemma fold_keeps: "v \<in> set vs \<Longrightarrow> aisId v \<notin> aisId ` set bs \<Longrightarrow> v \<in> set (foldl (\<lambda>acc b. upsertT b acc) vs bs)"
  by (induction bs arbitrary: vs) (auto intro: upsertT_keeps)

lemma fold_last: "bs = xs @ b # ys \<Longrightarrow> aisId b \<notin> aisId ` set ys \<Longrightarrow> b \<in> set (foldl (\<lambda>acc b. upsertT b acc) vs bs)"
  by (simp add: fold_keeps upsertT_mem)


text \<open>
  Claim C1. Starting from a mirror that holds vessel records with pairwise distinct
  identifiers (or from an absent, empty or unparseable mirror), any sequence of upserts
  completes, and reading the mirror afterwards yields records with pairwise distinct
  identifiers: those of the mirror and of the upserts, for each identifier the argument of
  the last upsert with it, and the untouched records of the mirror. An upsert with an
  identifier already at index \<open>i\<close> replaces the record at \<open>i\<close>.
\<close>

theorem C1_upsert_last_write_wins:
  assumes "mirror_holds vs0 s" and "distinct (map aisId vs0)"
  shows "\<exists>s1 s2 vs.
           upserts bs s = Done s1 \<and> loadVesselsFromStorage s1 = Done s2 \<and>
           allBoats s2 = map of_boat vs \<and>
           distinct (map aisId vs) \<and>
           aisId ` set vs = aisId ` set vs0 \<union> aisId ` set bs \<and>
           (\<forall>xs (b::BoatData) ys. bs = xs @ b # ys \<and> aisId b \<notin> aisId ` set ys \<longrightarrow> b \<in> set vs) \<and>
           (\<forall>v \<in> set vs0. aisId v \<notin> aisId ` set bs \<longrightarrow> v \<in> set vs) \<and>
           (\<forall>i (b::BoatData). i < length vs0 \<and> aisId (vs0 ! i) = aisId b \<longrightarrow>
              (\<exists>s'. mirror_upsert b s = Done s' \<and> mirror_holds (vs0[i := b]) s'))"
proof -
  let ?vs = "foldl (\<lambda>acc b. upsertT b acc) vs0 bs"
  from upserts_typed[OF assms(1), of bs] obtain s1 where
    s1: "upserts bs s = Done s1" "mirror_holds ?vs s1" by blast
  from load_typed[OF s1(2)] obtain s2 where
    s2: "loadVesselsFromStorage s1 = Done s2" "allBoats s2 = map of_boat ?vs" by blast
  have inplace: "\<forall>i (b::BoatData). i < length vs0 \<and> aisId (vs0 ! i) = aisId b \<longrightarrow>
              (\<exists>s'. mirror_upsert b s = Done s' \<and> mirror_holds (vs0[i := b]) s')"
  proof (intro allI impI)
    fix i and b :: BoatData assume h: "i < length vs0 \<and> aisId (vs0 ! i) = aisId b"
    then have "upsertT b vs0 = vs0[i := b]" using upsertT_in_place assms(2) by blast
    with mirror_upsert_typed[OF assms(1), of b]
    show "\<exists>s'. mirror_upsert b s = Done s' \<and> mirror_holds (vs0[i := b]) s'" by auto
  qed
  have "distinct (map aisId ?vs)" using assms(2) by (rule fold_distinct)
  moreover have "aisId ` set ?vs = aisId ` set vs0 \<union> aisId ` set bs" by (rule fold_ids)
  moreover have "\<forall>xs (b::BoatData) ys. bs = xs @ b # ys \<and> aisId b \<notin> aisId ` set ys \<longrightarrow> b \<in> set ?vs"
    using fold_last by blast
  moreover have "\<forall>v \<in> set vs0. aisId v \<notin> aisId ` set bs \<longrightarrow> v \<in> set ?vs"
    using fold_keeps by blast
  ultimately show ?thesis using s1(1) s2 inplace by blast
qed

theorem C1_witness:
  "mirror_holds [] (initial_app (\<lambda>k. None)) \<and> distinct (map aisId ([] :: BoatData list)) \<and>
   (\<exists>s1 s2 vs.
      upserts [newBoat_of ''AIS-1'' ''B1'' ''Ann'' ''1'' 10 10, newBoat_of ''AIS-2'' ''B2'' ''Bob'' ''2'' 20 20,
               newBoat_of ''AIS-1'' ''B9'' ''Cy'' ''3'' 30 30] (initial_app (\<lambda>k. None)) = Done s1 \<and>
      loadVesselsFromStorage s1 = Done s2 \<and> allBoats s2 = map of_boat vs \<and>
      distinct (map aisId vs) \<and>
      newBoat_of ''AIS-1'' ''B9'' ''Cy'' ''3'' 30 30 \<in> set vs)"
proof -
  define s where "s = initial_app (\<lambda>k. None)"
  define b1 where "b1 = newBoat_of ''AIS-1'' ''B1'' ''Ann'' ''1'' 10 10"
  define b2 where "b2 = newBoat_of ''AIS-2'' ''B2'' ''Bob'' ''2'' 20 20"
  define b3 where "b3 = newBoat_of ''AIS-1'' ''B9'' ''Cy'' ''3'' 30 30"
  have h1: "mirror_holds [] s" by (simp add: s_def mirror_holds_def initial_app_def)
  have h2: "distinct (map aisId ([] :: BoatData list))" by simp
  from C1_upsert_last_write_wins[OF h1 h2, of "[b1, b2, b3]"] obtain s1 s2 vs where
    r: "upserts [b1, b2, b3] s = Done s1" "loadVesselsFromStorage s1 = Done s2"
       "allBoats s2 = map of_boat vs" "distinct (map aisId vs)"
       and r5: "\<forall>xs (b::BoatData) ys. [b1, b2, b3] = xs @ b # ys \<and> aisId b \<notin> aisId ` set ys \<longrightarrow> b \<in> set vs"
    by (elim exE conjE)
  have "b3 \<in> set vs" using r5[rule_format, of "[b1, b2]" b3 "[]"] by simp
  with r have "\<exists>s1 s2 vs. upserts [b1, b2, b3] s = Done s1 \<and> loadVesselsFromStorage s1 = Done s2 \<and>
        allBoats s2 = map of_boat vs \<and> distinct (map aisId vs) \<and> b3 \<in> set vs"
    by (intro exI conjI)
  with h1 h2 have
    "mirror_holds [] s \<and> distinct (map aisId ([] :: BoatData list)) \<and>
     (\<exists>s1 s2 vs. upserts [b1, b2, b3] s = Done s1 \<and> loadVesselsFromStorage s1 = Done s2 \<and>
        allBoats s2 = map of_boat vs \<and> distinct (map aisId vs) \<and> b3 \<in> set vs)"
    by (intro conjI)
  then show ?thesis unfolding s_def b1_def b2_def b3_def .
qed

text \<open>
  Claim C2. Reading the mirror never throws, whatever the key holds. With the key absent,
  or holding the empty string, the result is the empty list; with an unparseable text the
  failure is logged with \<^verbatim>\<open>console.error\<close> and the result is the empty list; so it is
  whenever anything in the \<^verbatim>\<open>try\<close> block throws.
\<close>

theorem C2_readAll_never_raises:
  "(\<exists>s'. loadVesselsFromStorage s = Done s') \<and>
   (localStorage s ''registeredVessels'' = None \<longrightarrow>
      loadVesselsFromStorage s = Done ((emit ConsoleLog s)\<lparr>allBoats := []\<rparr>)) \<and>
   (localStorage s ''registeredVessels'' = Some Malformed \<longrightarrow>
      loadVesselsFromStorage s = Done ((emit ConsoleError s)\<lparr>allBoats := []\<rparr>)) \<and>
   (localStorage s ''registeredVessels'' = Some EmptyText \<longrightarrow>
      loadVesselsFromStorage s = Done ((emit ConsoleLog s)\<lparr>allBoats := []\<rparr>)) \<and>
   (\<forall>t e s1. localStorage s ''registeredVessels'' = Some t \<and> truthy (Some t) \<and> load_try t s = Threw e s1 \<longrightarrow>
      loadVesselsFromStorage s = Done ((emit ConsoleError s1)\<lparr>allBoats := []\<rparr>))"
  by (simp add: loadVesselsFromStorage_def load_try_def JSON_parse_def truthy_def Let_def
      split: outcome.splits)

theorem C2_witness:
  "loadVesselsFromStorage (initial_app (\<lambda>k. None)) =
     Done ((emit ConsoleLog (initial_app (\<lambda>k. None)))\<lparr>allBoats := []\<rparr>) \<and>
   loadVesselsFromStorage (initial_app ((\<lambda>k. None)(''registeredVessels'' \<mapsto> Malformed))) =
     Done ((emit ConsoleError (initial_app ((\<lambda>k. None)(''registeredVessels'' \<mapsto> Malformed))))\<lparr>allBoats := []\<rparr>) \<and>
   loadVesselsFromStorage (initial_app ((\<lambda>k. None)(''registeredVessels'' \<mapsto> EmptyText))) =
     Done ((emit ConsoleLog (initial_app ((\<lambda>k. None)(''registeredVessels'' \<mapsto> EmptyText))))\<lparr>allBoats := []\<rparr>) \<and>
   loadVesselsFromStorage (initial_app ((\<lambda>k. None)(''registeredVessels'' \<mapsto> Ser (JNum 5)))) =
     Done ((emit ConsoleError (emit ConsoleLog (initial_app ((\<lambda>k. None)(''registeredVessels'' \<mapsto> Ser (JNum 5))))))\<lparr>allBoats := []\<rparr>)"
proof -
  define sa where "sa = initial_app (\<lambda>k. None)"
  define sb where "sb = initial_app ((\<lambda>k. None)(''registeredVessels'' \<mapsto> Malformed))"
  define sc where "sc = initial_app ((\<lambda>k. None)(''registeredVessels'' \<mapsto> EmptyText))"
  define sd where "sd = initial_app ((\<lambda>k. None)(''registeredVessels'' \<mapsto> Ser (JNum 5)))"
  have a: "localStorage sa ''registeredVessels'' = None"
    by (simp add: sa_def initial_app_def)
  have b: "localStorage sb ''registeredVessels'' = Some Malformed"
    by (simp add: sb_def initial_app_def)
  have c: "localStorage sc ''registeredVessels'' = Some EmptyText"
    by (simp add: sc_def initial_app_def)
  have d: "localStorage sd ''registeredVessels'' = Some (Ser (JNum 5)) \<and> truthy (Some (Ser (JNum 5)))
        \<and> load_try (Ser (JNum 5)) sd = Threw TypeError (emit ConsoleLog sd)"
    by (simp add: sd_def initial_app_def truthy_def load_try_def JSON_parse_def)
  have ra: "loadVesselsFromStorage sa = Done ((emit ConsoleLog sa)\<lparr>allBoats := []\<rparr>)"
    using C2_readAll_never_raises[of sa] a by (elim conjE) (erule mp)
  have rb: "loadVesselsFromStorage sb = Done ((emit ConsoleError sb)\<lparr>allBoats := []\<rparr>)"
    using C2_readAll_never_raises[of sb] b by (elim conjE) (erule mp)
  have rc: "loadVesselsFromStorage sc = Done ((emit ConsoleLog sc)\<lparr>allBoats := []\<rparr>)"
    using C2_readAll_never_raises[of sc] c by (elim conjE) (erule mp)
  have "\<forall>t e s1. localStorage sd ''registeredVessels'' = Some t \<and> truthy (Some t) \<and> load_try t sd = Threw e s1 \<longrightarrow>
      loadVesselsFromStorage sd = Done ((emit ConsoleError s1)\<lparr>allBoats := []\<rparr>)"
    using C2_readAll_never_raises[of sd] by (elim conjE)
  from this[rule_format, OF d]
  have rd: "loadVesselsFromStorage sd = Done ((emit ConsoleError (emit ConsoleLog sd))\<lparr>allBoats := []\<rparr>)" .
  from ra rb rc rd show ?thesis unfolding sa_def sb_def sc_def sd_def by (intro conjI)
qed

lemma safeJSON_parse_fallback:
  "JSON_parse txt = Inl e \<Longrightarrow> safeJSON_parse txt fallback = (fallback, [ConsoleError, ConsoleWarn])"
  by (simp add: safeJSON_parse_def safeSync_def warn_parse_failure_def)

subsection \<open>Registration\<close>

lemma findIndex_bound: "findIndex p xs = Inr (Some i) \<Longrightarrow> i < length xs"
  by (induction xs arbitrary: i) (auto split: sum.splits bool.splits option.splits)

lemma has_aisId_total: "v \<noteq> JNull \<Longrightarrow> \<exists>c. has_aisId a v = Inr c"
  by (cases v) (auto simp: has_aisId_def)

lemma findIndex_no_null: "JNull \<notin> set xs \<Longrightarrow> \<exists>r. findIndex (has_aisId a) xs = Inr r"
proof (induction xs)
  case Nil then show ?case by simp
next
  case (Cons x xs)
  then obtain c r where "has_aisId a x = Inr c" "findIndex (has_aisId a) xs = Inr r"
    using has_aisId_total[of x a] by auto
  then show ?case by (cases c; cases r) simp_all
qed

lemma upsert_list_mem: "upsert_list b xs = Inr ys \<Longrightarrow> of_boat b \<in> set ys"
  by (auto simp: upsert_list_def set_update_memI findIndex_bound split: sum.splits option.splits)

lemma upsert_list_no_null: "JNull \<notin> set xs \<Longrightarrow> \<exists>ys. upsert_list b xs = Inr ys"
  using findIndex_no_null[of xs "aisId b"] by (auto simp: upsert_list_def split: option.splits)

lemma mirror_upsert_readable:
  assumes "mirror_readable s"
  shows "\<exists>vs. mirror_upsert b s =
            Done (dispatchEvent ''vesselsUpdated'' (setItem ''registeredVessels'' (Ser (JArr vs))
               (if localStorage s ''registeredVessels'' = Some Malformed then emit ConsoleError s else s)))
          \<and> of_boat b \<in> set vs"
proof (cases "localStorage s ''registeredVessels''")
  case None
  obtain ys where ys: "upsert_list b [] = Inr ys" using upsert_list_no_null[of "[]" b] by auto
  with None upsert_list_mem[OF ys] show ?thesis
    by (intro exI[of _ ys]) (simp add: mirror_upsert_def truthy_def JSON_stringify_def)
next
  case (Some t)
  show ?thesis
  proof (cases t)
    case EmptyText
    obtain ys where ys: "upsert_list b [] = Inr ys" using upsert_list_no_null[of "[]" b] by auto
    with Some EmptyText upsert_list_mem[OF ys] show ?thesis
      by (intro exI[of _ ys]) (simp add: mirror_upsert_def truthy_def JSON_stringify_def)
  next
    case Malformed
    obtain ys where ys: "upsert_list b [] = Inr ys" using upsert_list_no_null[of "[]" b] by auto
    with Some Malformed upsert_list_mem[OF ys] show ?thesis
      by (intro exI[of _ ys]) (simp add: mirror_upsert_def truthy_def JSON_stringify_def JSON_parse_def)
  next
    case (Ser v)
    with Some assms obtain xs where v: "v = JArr xs" "JNull \<notin> set xs"
      by (auto simp: mirror_readable_def split: jsval.splits)
    obtain ys where ys: "upsert_list b xs = Inr ys" using upsert_list_no_null[OF v(2), of b] by auto
    with Some Ser v upsert_list_mem[OF ys] show ?thesis
      by (intro exI[of _ ys]) (simp add: mirror_upsert_def truthy_def JSON_stringify_def JSON_parse_def)
  qed
qed

text \<open>
  Claim C10. With a readable mirror and no \<^verbatim>\<open>null\<close> in the in-memory list, registration
  completes; the record it creates is the view's own record and is in the list written to
  the mirror, with latitude 0, longitude 0, the first clock reading as position timestamp,
  status \<^verbatim>\<open>safe\<close>, speed 0 and heading 0: a position is present from the start.
\<close>

theorem C10_registration_placeholder:
  assumes "mirror_readable s" and "JNull \<notin> set (allBoats s)"
  shows "\<exists>s' vs.
           handleFishermanRegistration a b n c t1 t2 s = Done s' \<and>
           localStorage s' ''registeredVessels'' = Some (Ser (JArr vs)) \<and>
           of_boat (newBoat_of a b n c t1 t2) \<in> set vs \<and>
           boatData s' = Some (newBoat_of a b n c t1 t2) \<and>
           of_boat (newBoat_of a b n c t1 t2) =
             JObj [(''aisId'', JStr a), (''boatId'', JStr b),
                   (''location'', JObj [(''lat'', JNum 0), (''lng'', JNum 0), (''timestamp'', JNum (real t1))]),
                   (''status'', JStr ''safe''), (''speed'', JNum 0), (''heading'', JNum 0),
                   (''lastUpdate'', JNum (real t2)),
                   (''fishermanName'', JStr n), (''contactInfo'', JStr c)] \<and>
           location (newBoat_of a b n c t1 t2) = \<lparr>lat = 0, lng = 0, timestamp = t1\<rparr> \<and>
           status (newBoat_of a b n c t1 t2) = Safe \<and>
           speed (newBoat_of a b n c t1 t2) = 0 \<and> heading (newBoat_of a b n c t1 t2) = 0"
proof -
  let ?nb = "newBoat_of a b n c t1 t2"
  let ?s1 = "s\<lparr>boatData := Some ?nb, isRegistered := True, isTracking := True\<rparr>"
  have "mirror_readable ?s1" using assms(1) by (simp add: mirror_readable_def)
  from mirror_upsert_readable[OF this, of ?nb] obtain vs s2 where
    m: "mirror_upsert ?nb ?s1 = Done s2"
       "s2 = dispatchEvent ''vesselsUpdated'' (setItem ''registeredVessels'' (Ser (JArr vs))
               (if localStorage ?s1 ''registeredVessels'' = Some Malformed then emit ConsoleError ?s1 else ?s1))"
       "of_boat ?nb \<in> set vs"
    by blast
  from m(2) have s2: "allBoats s2 = allBoats s" "boatData s2 = Some ?nb"
      "localStorage s2 ''registeredVessels'' = Some (Ser (JArr vs))"
    by (simp_all add: dispatchEvent_def setItem_def emit_def)
  from assms(2) s2(1) obtain ys where ys: "upsert_list ?nb (allBoats s2) = Inr ys"
    using upsert_list_no_null[of "allBoats s2" ?nb] by auto
  have r: "handleFishermanRegistration a b n c t1 t2 s = Done (emit ConsoleLog (s2\<lparr>allBoats := ys\<rparr>))"
    using m(1) ys by (simp add: handleFishermanRegistration_def Let_def)
  have o: "of_boat ?nb =
             JObj [(''aisId'', JStr a), (''boatId'', JStr b),
                   (''location'', JObj [(''lat'', JNum 0), (''lng'', JNum 0), (''timestamp'', JNum (real t1))]),
                   (''status'', JStr ''safe''), (''speed'', JNum 0), (''heading'', JNum 0),
                   (''lastUpdate'', JNum (real t2)),
                   (''fishermanName'', JStr n), (''contactInfo'', JStr c)]"
    by (simp add: of_boat_def newBoat_of_def of_point_def of_status_def opt_prop_def)
  have f: "location ?nb = \<lparr>lat = 0, lng = 0, timestamp = t1\<rparr>" "status ?nb = Safe" "speed ?nb = 0" "heading ?nb = 0"
    by (simp_all add: newBoat_of_def)
  have "localStorage (emit ConsoleLog (s2\<lparr>allBoats := ys\<rparr>)) ''registeredVessels'' = Some (Ser (JArr vs))"
       "boatData (emit ConsoleLog (s2\<lparr>allBoats := ys\<rparr>)) = Some ?nb"
    using s2 by (simp_all add: emit_def)
  with r m(3) o f show ?thesis by (intro exI conjI)
qed

theorem C10_witness:
  "mirror_readable (initial_app (\<lambda>k. None)) \<and> JNull \<notin> set (allBoats (initial_app (\<lambda>k. None))) \<and>
   (\<exists>s' vs. handleFishermanRegistration ''AIS-1'' ''B1'' ''Ann'' ''555'' 1000 1001 (initial_app (\<lambda>k. None)) = Done s' \<and>
      localStorage s' ''registeredVessels'' = Some (Ser (JArr vs)) \<and>
      of_boat (newBoat_of ''AIS-1'' ''B1'' ''Ann'' ''555'' 1000 1001) \<in> set vs \<and>
      speed (newBoat_of ''AIS-1'' ''B1'' ''Ann'' ''555'' 1000 1001) = 0)"
proof -
  define s where "s = initial_app (\<lambda>k. None)"
  define nb where "nb = newBoat_of ''AIS-1'' ''B1'' ''Ann'' ''555'' 1000 1001"
  have h1: "mirror_readable s" by (simp add: s_def mirror_readable_def initial_app_def)
  have h2: "JNull \<notin> set (allBoats s)" by (simp add: s_def initial_app_def)
  from C10_registration_placeholder[OF h1 h2, of "''AIS-1''" "''B1''" "''Ann''" "''555''" 1000 1001]
  obtain s' vs where
    r: "handleFishermanRegistration ''AIS-1'' ''B1'' ''Ann'' ''555'' 1000 1001 s = Done s'"
       "localStorage s' ''registeredVessels'' = Some (Ser (JArr vs))"
       "of_boat nb \<in> set vs" "speed nb = 0"
    unfolding nb_def by (elim exE conjE)
  then have "\<exists>s' vs. handleFishermanRegistration ''AIS-1'' ''B1'' ''Ann'' ''555'' 1000 1001 s = Done s' \<and>
      localStorage s' ''registeredVessels'' = Some (Ser (JArr vs)) \<and> of_boat nb \<in> set vs \<and> speed nb = 0"
    by (intro exI conjI)
  with h1 h2 show ?thesis unfolding s_def nb_def by (intro conjI)
qed

subsection \<open>Writes and the broadcast\<close>

lemma bf_append: "broadcast_follows xs \<Longrightarrow> broadcast_follows ys \<Longrightarrow> broadcast_follows (xs @ ys)"
  by (induction xs rule: broadcast_follows.induct) (auto split: list.splits effect.splits)

lemma write_back_trace:
  "\<exists>new. trace (final (write_back f s)) = trace s @ new \<and> broadcast_follows new"
  by (cases "map_err f (allBoats s)")
     (simp_all add: write_back_def final_def dispatchEvent_def setItem_def emit_def)

lemma mirror_upsert_trace:
  "\<exists>new. trace (final (mirror_upsert b s)) = trace s @ new \<and> broadcast_follows new"
  by (simp add: mirror_upsert_def final_def dispatchEvent_def setItem_def emit_def Let_def
      split: sum.splits jsval.splits prod.splits if_splits)

lemma load_trace:
  "\<exists>new. trace (final (loadVesselsFromStorage s)) = trace s @ new \<and> broadcast_follows new"
  by (simp add: loadVesselsFromStorage_def load_try_def final_def emit_def Let_def
      split: sum.splits jsval.splits outcome.splits)

lemma registration_trace:
  "\<exists>new. trace (final (handleFishermanRegistration a b n c t1 t2 s)) = trace s @ new \<and> broadcast_follows new"
proof -
  let ?nb = "newBoat_of a b n c t1 t2"
  let ?s1 = "s\<lparr>boatData := Some ?nb, isRegistered := True, isTracking := True\<rparr>"
  from mirror_upsert_trace[of ?nb ?s1] obtain new where
    n: "trace (final (mirror_upsert ?nb ?s1)) = trace s @ new" "broadcast_follows new" by auto
  show ?thesis
  proof (cases "mirror_upsert ?nb ?s1")
    case (Threw e s2)
    with n show ?thesis by (auto simp: handleFishermanRegistration_def Let_def final_def)
  next
    case (Done s2)
    show ?thesis
    proof (cases "upsert_list ?nb (allBoats s2)")
      case (Inl e)
      with Done n show ?thesis by (auto simp: handleFishermanRegistration_def Let_def final_def)
    next
      case (Inr ys)
      have "broadcast_follows (new @ [ConsoleLog])" using n(2) by (simp add: bf_append)
      with Done Inr n(1) show ?thesis
        by (auto simp: handleFishermanRegistration_def Let_def final_def emit_def)
    qed
  qed
qed

lemma updateLocation_trace:
  "\<exists>new. trace (final (updateLocation la lo t1 t2 s)) = trace s @ new \<and> broadcast_follows new"
proof (cases "boatData s")
  case None then show ?thesis by (simp add: updateLocation_def final_def)
next
  case (Some b)
  let ?ub = "b\<lparr>location := \<lparr>lat = la, lng = lo, timestamp = t1\<rparr>, lastUpdate := t2\<rparr>"
  let ?s1 = "(emit ConsoleLog s)\<lparr>boatData := Some ?ub\<rparr>"
  from write_back_trace[of "replace_own (aisId b) ?ub" ?s1] obtain new where
    n: "trace (final (write_back (replace_own (aisId b) ?ub) ?s1)) = trace ?s1 @ new" "broadcast_follows new"
    by auto
  have "broadcast_follows ([ConsoleLog] @ new)" using n(2) by (intro bf_append) simp_all
  with Some n(1) show ?thesis by (auto simp: updateLocation_def Let_def emit_def)
qed

lemma updateBoatStatus_trace:
  "\<exists>new. trace (final (updateBoatStatus st s)) = trace s @ new \<and> broadcast_follows new"
proof (cases "boatData s")
  case None then show ?thesis by (simp add: updateBoatStatus_def final_def)
next
  case (Some b)
  from write_back_trace[of "replace_own (aisId b) (b\<lparr>status := st\<rparr>)" "s\<lparr>boatData := Some (b\<lparr>status := st\<rparr>)\<rparr>"]
  show ?thesis using Some by (auto simp: updateBoatStatus_def Let_def)
qed

lemma updateBoatStatusByCoastGuard_trace:
  "\<exists>new. trace (final (updateBoatStatusByCoastGuard a st s)) = trace s @ new \<and> broadcast_follows new"
proof -
  from write_back_trace[of "restatus a st" s] obtain new where
    n: "trace (final (write_back (restatus a st) s)) = trace s @ new" "broadcast_follows new" by auto
  have "trace (final (updateBoatStatusByCoastGuard a st s)) = trace (final (write_back (restatus a st) s))"
    by (simp add: updateBoatStatusByCoastGuard_def final_def split: outcome.splits option.splits)
  with n show ?thesis by auto
qed

lemma coast_guard_trace:
  "\<exists>new. trace (updateCoastGuardLocation la lo sp hdg t1 t2 s) = trace s @ new \<and> broadcast_follows new"
  "\<exists>new. trace (toggleCoastGuardTracking en s) = trace s @ new \<and> broadcast_follows new"
  by (simp_all add: updateCoastGuardLocation_def toggleCoastGuardTracking_def emit_def Let_def
      split: option.splits)

lemma perform_trace:
  "\<exists>new. trace (perform a s) = trace s @ new \<and> broadcast_follows new"
  by (cases a)
     (simp_all add: registration_trace updateLocation_trace updateBoatStatus_trace
        updateBoatStatusByCoastGuard_trace load_trace coast_guard_trace)

lemma run_trace: "broadcast_follows (trace s) \<Longrightarrow> broadcast_follows (trace (run acts s))"
proof (induction acts arbitrary: s)
  case Nil then show ?case by simp
next
  case (Cons a acts)
  from perform_trace[of a s] obtain new where
    "trace (perform a s) = trace s @ new" "broadcast_follows new" by auto
  with Cons.prems have "broadcast_follows (trace (perform a s))" by (simp add: bf_append)
  then show ?case using Cons.IH by simp
qed

text \<open>
  Claim C4. Whatever handlers run, in whatever order and over whatever storage, every write
  of the mirror key in the trace is immediately followed by the dispatch of
  \<^verbatim>\<open>vesselsUpdated\<close>: registration, location update and both status updates write and
  dispatch back to back.
\<close>

theorem C4_write_then_broadcast:
  "broadcast_follows (trace (run acts (initial_app store)))"
  by (rule run_trace) (simp add: initial_app_def)

text \<open>
  Claim C9. A location update and a tracking toggle of the coast-guard record leave the
  storage, and with it the mirror, as it was, and write nothing; the in-memory vessel list
  is untouched as well.
\<close>

theorem C9_coast_guard_never_writes:
  "localStorage (updateCoastGuardLocation la lo sp hdg t1 t2 s) = localStorage s \<and>
   filter is_write (trace (updateCoastGuardLocation la lo sp hdg t1 t2 s)) = filter is_write (trace s) \<and>
   allBoats (updateCoastGuardLocation la lo sp hdg t1 t2 s) = allBoats s \<and>
   localStorage (toggleCoastGuardTracking en s) = localStorage s \<and>
   trace (toggleCoastGuardTracking en s) = trace s \<and>
   allBoats (toggleCoastGuardTracking en s) = allBoats s"
  by (simp add: updateCoastGuardLocation_def toggleCoastGuardTracking_def emit_def is_write_def Let_def
      split: option.splits)

subsection \<open>Status updates and the freshness marker\<close>

lemma registered_state:
  "registered_example =
   \<lparr>boatData = Some (newBoat_of ''AIS-1'' ''B1'' ''Ann'' ''555'' 1000 1000),
    allBoats = [of_boat (newBoat_of ''AIS-1'' ''B1'' ''Ann'' ''555'' 1000 1000)],
    isRegistered = True, isTracking = True, coastGuardVessel = None, isCoastGuardTracking = False,
    localStorage = empty_storage(''registeredVessels'' \<mapsto>
       Ser (JArr [of_boat (newBoat_of ''AIS-1'' ''B1'' ''Ann'' ''555'' 1000 1000)])),
    trace = [SetItem ''registeredVessels''
               (Ser (JArr [of_boat (newBoat_of ''AIS-1'' ''B1'' ''Ann'' ''555'' 1000 1000)])),
             DispatchEvent ''vesselsUpdated'', ConsoleLog]\<rparr>"
  by (simp add: registered_example_def final_def handleFishermanRegistration_def mirror_upsert_def
      initial_app_def empty_storage_def truthy_def upsert_list_def dispatchEvent_def setItem_def
      emit_def JSON_stringify_def Let_def)

text \<open>
  Claim C7, at a failing input. A vessel registered at time 1000 whose status is then
  changed, by the fisherman's view or by the coast guard's: the handler completes, the
  status changes in the view's record and in the mirror, and the last-update timestamp is
  still 1000. Neither handler reads the clock.
\<close>

theorem C7_status_update_keeps_lastUpdate:
  "updateBoatStatus Danger registered_example =
     Done (final (updateBoatStatus Danger registered_example)) \<and>
   map_option status (boatData (final (updateBoatStatus Danger registered_example))) = Some Danger \<and>
   map_option lastUpdate (boatData (final (updateBoatStatus Danger registered_example))) = Some 1000 \<and>
   localStorage (final (updateBoatStatus Danger registered_example)) ''registeredVessels'' =
     Some (Ser (JArr [of_boat
       ((newBoat_of ''AIS-1'' ''B1'' ''Ann'' ''555'' 1000 1000)\<lparr>status := Danger\<rparr>)])) \<and>
   lastUpdate ((newBoat_of ''AIS-1'' ''B1'' ''Ann'' ''555'' 1000 1000)\<lparr>status := Danger\<rparr>) = 1000 \<and>
   updateBoatStatusByCoastGuard ''AIS-1'' Warning registered_example =
     Done (final (updateBoatStatusByCoastGuard ''AIS-1'' Warning registered_example)) \<and>
   map_option status
     (boatData (final (updateBoatStatusByCoastGuard ''AIS-1'' Warning registered_example))) = Some Warning \<and>
   map_option lastUpdate
     (boatData (final (updateBoatStatusByCoastGuard ''AIS-1'' Warning registered_example))) = Some 1000 \<and>
   localStorage (final (updateBoatStatusByCoastGuard ''AIS-1'' Warning registered_example))
       ''registeredVessels'' =
     Some (Ser (JArr [of_boat
       ((newBoat_of ''AIS-1'' ''B1'' ''Ann'' ''555'' 1000 1000)\<lparr>status := Warning\<rparr>)]))"
  by (simp add: registered_state updateBoatStatus_def updateBoatStatusByCoastGuard_def write_back_def
      final_def replace_own_def restatus_def spread_status_def has_aisId_def of_boat_def of_point_def
      of_status_def opt_prop_def newBoat_of_def dispatchEvent_def setItem_def emit_def
      JSON_stringify_def Let_def)

section \<open>Properties of the shared position source\<close>

lemma one_watch_new: "one_watch (new_source avail)"
  by (simp add: one_watch_def new_source_def)

lemma one_watch_subscribe: "one_watch w \<Longrightarrow> one_watch (fst (subscribe f e w))"
  by (auto simp: one_watch_def subscribe_def startWatching_def set_add_def Let_def split: option.splits)

lemma one_watch_unsubscribe: "one_watch w \<Longrightarrow> one_watch (call_unsubscribe u w)"
  by (cases u) (auto simp: one_watch_def call_unsubscribe_def stopWatching_def set_delete_def Let_def
      split: option.splits)

lemma one_watch_position: "one_watch (on_watch_position p w) = one_watch w"
  by (simp add: one_watch_def on_watch_position_def Let_def)

lemma one_watch_error: "one_watch (on_watch_error c w) = one_watch w"
  by (simp add: one_watch_def on_watch_error_def)

lemma one_watch_fold_position: "one_watch w \<Longrightarrow> one_watch (fold (\<lambda>i. on_watch_position p) xs w)"
  by (induction xs arbitrary: w) (simp_all add: one_watch_position)

lemma one_watch_fold_error: "one_watch w \<Longrightarrow> one_watch (fold (\<lambda>i. on_watch_error c) xs w)"
  by (induction xs arbitrary: w) (simp_all add: one_watch_error)

lemma one_watch_step: "one_watch w \<Longrightarrow> one_watch (source_step ev w)"
  by (cases ev) (simp_all add: one_watch_subscribe one_watch_unsubscribe one_watch_fold_position
      one_watch_fold_error)

lemma one_watch_run: "one_watch w \<Longrightarrow> one_watch (source_run evs w)"
  by (induction evs arbitrary: w) (simp_all add: one_watch_step)

lemma available_fold_position: "nav_available (fold (\<lambda>i. on_watch_position p) xs w) = nav_available w"
  by (induction xs arbitrary: w) (simp_all add: on_watch_position_def Let_def)

lemma available_fold_error: "nav_available (fold (\<lambda>i. on_watch_error c) xs w) = nav_available w"
  by (induction xs arbitrary: w) (simp_all add: on_watch_error_def)

lemma available_step: "nav_available (source_step ev w) = nav_available w"
proof (cases ev)
  case (Subscribe f e)
  then show ?thesis by (simp add: subscribe_def startWatching_def Let_def split: option.splits)
next
  case (Unsubscribe u)
  then show ?thesis
    by (cases u) (simp_all add: call_unsubscribe_def stopWatching_def Let_def split: option.splits)
qed (simp_all add: available_fold_position available_fold_error)

lemma available_run: "nav_available (source_run evs w) = nav_available w"
  by (induction evs arbitrary: w) (simp_all add: available_step)

text \<open>
  Claim C3. After any sequence of subscriptions, unsubscriptions, samples and failures on
  a fresh service, at most one watch is open on the platform; one is open exactly when the
  platform has geolocation and there is a subscriber; opened watches are the cleared ones
  plus the open one. A subscription while a watch is open opens none; a subscription with
  no subscriber left opens one again; the unsubscription that removes the last subscriber
  clears the watch, any other leaves it.
\<close>

theorem C3_at_most_one_watch:
  assumes "w = source_run evs (new_source avail)"
  shows "length (nav_watches w) \<le> 1 \<and>
         (nav_watches w \<noteq> []) = (avail \<and> callbacks w \<noteq> []) \<and>
         nav_opened w = nav_cleared w + length (nav_watches w) \<and>
         (nav_watches w \<noteq> [] \<longrightarrow>
            nav_opened (fst (subscribe f e w)) = nav_opened w \<and>
            nav_watches (fst (subscribe f e w)) = nav_watches w) \<and>
         (callbacks w = [] \<and> avail \<longrightarrow>
            length (nav_watches (fst (subscribe f e w))) = 1 \<and>
            nav_opened (fst (subscribe f e w)) = Suc (nav_opened w)) \<and>
         (callbacks w \<noteq> [] \<and> callbacks (call_unsubscribe u w) = [] \<and> avail \<longrightarrow>
            nav_watches (call_unsubscribe u w) = [] \<and>
            nav_cleared (call_unsubscribe u w) = Suc (nav_cleared w)) \<and>
         (callbacks (call_unsubscribe u w) \<noteq> [] \<longrightarrow>
            nav_watches (call_unsubscribe u w) = nav_watches w \<and>
            nav_cleared (call_unsubscribe u w) = nav_cleared w)"
proof -
  have inv: "one_watch w" unfolding assms by (rule one_watch_run) (rule one_watch_new)
  have av: "nav_available w = avail" unfolding assms by (simp add: available_run new_source_def)
  have 1: "length (nav_watches w) \<le> 1" using inv by (auto simp: one_watch_def split: option.splits)
  have 2: "(nav_watches w \<noteq> []) = (avail \<and> callbacks w \<noteq> [])"
    using inv av by (auto simp: one_watch_def split: option.splits)
  have 3: "nav_opened w = nav_cleared w + length (nav_watches w)" using inv by (simp add: one_watch_def)
  have 4: "nav_watches w \<noteq> [] \<longrightarrow>
            nav_opened (fst (subscribe f e w)) = nav_opened w \<and>
            nav_watches (fst (subscribe f e w)) = nav_watches w"
    using inv by (auto simp: one_watch_def subscribe_def startWatching_def Let_def split: option.splits)
  have 5: "callbacks w = [] \<and> avail \<longrightarrow>
            length (nav_watches (fst (subscribe f e w))) = 1 \<and>
            nav_opened (fst (subscribe f e w)) = Suc (nav_opened w)"
    using inv av by (auto simp: one_watch_def subscribe_def startWatching_def Let_def split: option.splits)
  have 6: "callbacks w \<noteq> [] \<and> callbacks (call_unsubscribe u w) = [] \<and> avail \<longrightarrow>
            nav_watches (call_unsubscribe u w) = [] \<and>
            nav_cleared (call_unsubscribe u w) = Suc (nav_cleared w)"
    using inv av by (cases u) (auto simp: one_watch_def call_unsubscribe_def stopWatching_def Let_def
        split: option.splits if_splits)
  have 7: "callbacks (call_unsubscribe u w) \<noteq> [] \<longrightarrow>
            nav_watches (call_unsubscribe u w) = nav_watches w \<and>
            nav_cleared (call_unsubscribe u w) = nav_cleared w"
    by (cases u) (auto simp: call_unsubscribe_def stopWatching_def Let_def split: option.splits if_splits)
  from 1 2 3 4 5 6 7 show ?thesis by (intro conjI)
qed

theorem C3_witness:
  "length (nav_watches (source_run [Subscribe 1 2, Subscribe 3 4] (new_source True))) \<le> 1 \<and>
   nav_watches (source_run [Subscribe 1 2, Subscribe 3 4] (new_source True)) \<noteq> [] \<and>
   nav_opened (fst (subscribe 5 6 (source_run [Subscribe 1 2, Subscribe 3 4] (new_source True)))) =
     nav_opened (source_run [Subscribe 1 2, Subscribe 3 4] (new_source True)) \<and>
   callbacks (call_unsubscribe (Remove 1 2) (source_run [Subscribe 1 2, Subscribe 3 4] (new_source True))) \<noteq> [] \<and>
   nav_watches (call_unsubscribe (Remove 1 2) (source_run [Subscribe 1 2, Subscribe 3 4] (new_source True))) =
     nav_watches (source_run [Subscribe 1 2, Subscribe 3 4] (new_source True)) \<and>
   callbacks (source_run [Subscribe 1 2, Unsubscribe (Remove 1 2)] (new_source True)) = [] \<and>
   length (nav_watches (fst (subscribe 5 6 (source_run [Subscribe 1 2, Unsubscribe (Remove 1 2)] (new_source True))))) = 1 \<and>
   callbacks (source_run [Subscribe 1 2] (new_source True)) \<noteq> [] \<and>
   callbacks (call_unsubscribe (Remove 1 2) (source_run [Subscribe 1 2] (new_source True))) = [] \<and>
   nav_watches (call_unsubscribe (Remove 1 2) (source_run [Subscribe 1 2] (new_source True))) = []"
proof -
  define wa where "wa = source_run [Subscribe 1 2, Subscribe 3 4] (new_source True)"
  define wb where "wb = source_run [Subscribe 1 2, Unsubscribe (Remove 1 2)] (new_source True)"
  define wc where "wc = source_run [Subscribe 1 2] (new_source True)"
  have a1: "nav_watches wa \<noteq> []"
    by (simp add: wa_def new_source_def subscribe_def startWatching_def set_add_def Let_def)
  have a2: "callbacks (call_unsubscribe (Remove 1 2) wa) \<noteq> []"
    by (simp add: wa_def new_source_def subscribe_def startWatching_def set_add_def
        call_unsubscribe_def set_delete_def Let_def)
  have b1: "callbacks wb = [] \<and> True"
    by (simp add: wb_def new_source_def subscribe_def startWatching_def set_add_def
        call_unsubscribe_def set_delete_def stopWatching_def Let_def)
  have c1: "callbacks wc \<noteq> []"
    by (simp add: wc_def new_source_def subscribe_def startWatching_def set_add_def Let_def)
  have c2: "callbacks (call_unsubscribe (Remove 1 2) wc) = []"
    by (simp add: wc_def new_source_def subscribe_def startWatching_def set_add_def
        call_unsubscribe_def set_delete_def stopWatching_def Let_def)
  note A = C3_at_most_one_watch[OF wa_def, of 5 6 "Remove 1 2"]
  note B = C3_at_most_one_watch[OF wb_def, of 5 6 "Remove 1 2"]
  note C = C3_at_most_one_watch[OF wc_def, of 5 6 "Remove 1 2"]
  have r1: "length (nav_watches wa) \<le> 1" using A by (elim conjE)
  have r2: "nav_opened (fst (subscribe 5 6 wa)) = nav_opened wa" using A a1 by (elim conjE) simp
  have r3: "nav_watches (call_unsubscribe (Remove 1 2) wa) = nav_watches wa" using A a2 by (elim conjE) simp
  have r4: "length (nav_watches (fst (subscribe 5 6 wb))) = 1" using B b1 by (elim conjE) simp
  have r5: "nav_watches (call_unsubscribe (Remove 1 2) wc) = []" using C c1 c2 by (elim conjE) simp
  from r1 a1 r2 a2 r3 b1 r4 c1 c2 r5 show ?thesis unfolding wa_def wb_def wc_def by (intro conjI) simp_all
qed

text \<open>
  Claim C8. When the service holds a sample and a callback that is not yet registered
  subscribes (a new consumer; a registered one is turned away before anything else), the
  one call the subscription makes is the callback with that sample, made before
  \<^verbatim>\<open>subscribe\<close> returns its unsubscribe function, and the callback is registered.
\<close>

theorem C8_late_subscriber_gets_sample:
  assumes "currentPosition w = Some p" and "onPosition \<notin> set (callbacks w)"
  shows "calls (fst (subscribe onPosition onError w)) = calls w @ [OnPosition onPosition p] \<and>
         snd (subscribe onPosition onError w) = Remove onPosition onError \<and>
         onPosition \<in> set (callbacks (fst (subscribe onPosition onError w)))"
  using assms by (simp add: subscribe_def startWatching_def set_add_def Let_def)

theorem C8_witness:
  "currentPosition (source_run [Subscribe 1 2,
       Sample \<lparr>coords = \<lparr>latitude = 12, longitude = 77, accuracy = 5, coords_speed = None, coords_heading = None\<rparr>, pos_timestamp = 1\<rparr>,
       Unsubscribe (Remove 1 2)] (new_source True)) =
     Some \<lparr>coords = \<lparr>latitude = 12, longitude = 77, accuracy = 5, coords_speed = None, coords_heading = None\<rparr>, pos_timestamp = 1\<rparr> \<and>
   3 \<notin> set (callbacks (source_run [Subscribe 1 2,
       Sample \<lparr>coords = \<lparr>latitude = 12, longitude = 77, accuracy = 5, coords_speed = None, coords_heading = None\<rparr>, pos_timestamp = 1\<rparr>,
       Unsubscribe (Remove 1 2)] (new_source True))) \<and>
   calls (fst (subscribe 3 4 (source_run [Subscribe 1 2,
       Sample \<lparr>coords = \<lparr>latitude = 12, longitude = 77, accuracy = 5, coords_speed = None, coords_heading = None\<rparr>, pos_timestamp = 1\<rparr>,
       Unsubscribe (Remove 1 2)] (new_source True)))) =
     calls (source_run [Subscribe 1 2,
       Sample \<lparr>coords = \<lparr>latitude = 12, longitude = 77, accuracy = 5, coords_speed = None, coords_heading = None\<rparr>, pos_timestamp = 1\<rparr>,
       Unsubscribe (Remove 1 2)] (new_source True)) @
     [OnPosition 3 \<lparr>coords = \<lparr>latitude = 12, longitude = 77, accuracy = 5, coords_speed = None, coords_heading = None\<rparr>, pos_timestamp = 1\<rparr>]"
proof -
  define p where "p = \<lparr>coords = \<lparr>latitude = 12, longitude = 77, accuracy = 5, coords_speed = None, coords_heading = None\<rparr>, pos_timestamp = 1::nat\<rparr>"
  define w where "w = source_run [Subscribe 1 2, Sample p, Unsubscribe (Remove 1 2)] (new_source True)"
  have h1: "currentPosition w = Some p"
    by (simp add: w_def new_source_def subscribe_def startWatching_def set_add_def
        call_unsubscribe_def set_delete_def stopWatching_def on_watch_position_def Let_def)
  have h2: "3 \<notin> set (callbacks w)"
    by (simp add: w_def new_source_def subscribe_def startWatching_def set_add_def
        call_unsubscribe_def set_delete_def stopWatching_def on_watch_position_def Let_def)
  have "calls (fst (subscribe 3 4 w)) = calls w @ [OnPosition 3 p]"
    using C8_late_subscriber_gets_sample[OF h1 h2, of 4] by (elim conjE)
  with h1 h2 show ?thesis unfolding w_def p_def by (intro conjI)
qed

lemma duplicate_subscription_ignored:
  "onPosition \<in> set (callbacks w) \<Longrightarrow> subscribe onPosition onError w = (w, Noop)"
  by (simp add: subscribe_def)

section \<open>Properties of the trackers\<close>

lemma render_same_property: "deps m = Some tracking \<Longrightarrow> render tracking support m = m"
  by (simp add: render_def)

lemma retry_click_issues_nothing:
  "deps m = Some tracking \<Longrightarrow>
     issued (retry_click tracking support m) = issued m \<and>
     locationStatus (trk (retry_click tracking support m)) = Requesting"
  by (simp add: retry_click_def render_def handleRetry_def)

lemma requesting_only_by_retry:
  "locationStatus (watch_error code msg t) \<noteq> Requesting"
  "locationStatus (cg_position p now ct) \<noteq> Requesting"
  "locationStatus (fisherman_position p now ft) \<noteq> Requesting"
  by (simp_all add: watch_error_def cg_position_def fisherman_position_def Let_def)

text \<open>
  Claim C5, at a failing input. A tracker mounted with tracking on requests the one-shot
  position and the watch. After a permission-denied failure its status is \<open>Denied\<close>, and a
  render without a change of the tracking property leaves it so. A click on the retry
  button sets the status to \<open>Requesting\<close>, and the requests made are still the two of the
  mount: the effect depends on the tracking property alone, so nothing is issued again.
  The same holds for the fisherman's tracker after a timeout.
\<close>

theorem C5_retry_issues_no_request:
  "issued (render True (True, ''ready'') (mount new_cg_tracker)) =
     [GetCurrentPosition True 5000 0, WatchPosition True 10000 1000] \<and>
   locationStatus (trk (watch_failed 1 ''denied'' True (True, ''ready'')
      (render True (True, ''ready'') (mount new_cg_tracker)))) = Denied \<and>
   passive_render True (True, ''ready'') (watch_failed 1 ''denied'' True (True, ''ready'')
      (render True (True, ''ready'') (mount new_cg_tracker))) =
     watch_failed 1 ''denied'' True (True, ''ready'') (render True (True, ''ready'') (mount new_cg_tracker)) \<and>
   locationStatus (trk (retry_click True (True, ''ready'') (watch_failed 1 ''denied'' True (True, ''ready'')
      (render True (True, ''ready'') (mount new_cg_tracker))))) = Requesting \<and>
   issued (retry_click True (True, ''ready'') (watch_failed 1 ''denied'' True (True, ''ready'')
      (render True (True, ''ready'') (mount new_cg_tracker)))) =
     [GetCurrentPosition True 5000 0, WatchPosition True 10000 1000] \<and>
   issued (retry_click True (True, ''ready'') (watch_failed 3 ''timed out'' True (True, ''ready'')
      (render True (True, ''ready'') (mount new_tracker)))) =
     [GetCurrentPosition True 5000 0, WatchPosition True 10000 1000]"
  by (simp add: render_def tracking_effect_def mount_def new_cg_tracker_def new_tracker_def
      watch_failed_def watch_error_def retry_click_def handleRetry_def passive_render_def Let_def)

text \<open>
  The coast-guard tracker converts and passes speed and heading, and the root view stores
  them in the coast-guard record: the reported speed times 1.94384, or 0 when none is
  reported, and the reported heading, or 0 when none is reported.
\<close>

lemma cg_sample_speed_heading:
  assumes "coastGuardVessel s = Some v"
  shows "\<exists>v'. coastGuardVessel (snd (cg_sample p now t1 t2 (t, s))) = Some v' \<and>
           cg_speed v' = (case coords_speed (coords p) of Some x \<Rightarrow> x * 1.94384 | None \<Rightarrow> 0) \<and>
           cg_heading v' = (case coords_heading (coords p) of Some h \<Rightarrow> h | None \<Rightarrow> 0) \<and>
           cg_location v' = \<lparr>lat = latitude (coords p), lng = longitude (coords p), timestamp = t1\<rparr> \<and>
           cg_lastUpdate v' = t2"
  using assms
  by (simp add: cg_sample_def updateCoastGuardLocation_def speedKnots_def headingDegrees_def Let_def)

lemma cg_tracker_speed_heading:
  "trk_speed (fst (cg_sample p now t1 t2 (t, s))) =
     (case coords_speed (coords p) of Some x \<Rightarrow> x * 1.94384 | None \<Rightarrow> 0) \<and>
   trk_heading (fst (cg_sample p now t1 t2 (t, s))) =
     (case coords_heading (coords p) of Some h \<Rightarrow> h | None \<Rightarrow> 0)"
  by (simp add: cg_sample_def cg_position_def speedKnots_def headingDegrees_def)

text \<open>
  Claim C6, at a failing input. The platform reports a sample with speed 5 and heading 90
  to the fisherman's tracker of a registered vessel. The handler completes and the sample
  is folded into the vessel record: position and timestamps are those of the sample, and
  the stored speed and heading are 0, not 5 times 1.94384 and 90, in the view and in the
  mirror. The fisherman's tracker passes latitude and longitude only.
\<close>

theorem C6_fisherman_sample_drops_speed:
  "snd (fisherman_sample sample_moving 2000 2000 2000 (new_tracker, registered_example)) =
     Done (final (snd (fisherman_sample sample_moving 2000 2000 2000 (new_tracker, registered_example)))) \<and>
   coords_speed (coords sample_moving) = Some 5 \<and>
   coords_heading (coords sample_moving) = Some 90 \<and>
   map_option speed (boatData (final (snd
      (fisherman_sample sample_moving 2000 2000 2000 (new_tracker, registered_example))))) = Some 0 \<and>
   map_option speed (boatData (final (snd
      (fisherman_sample sample_moving 2000 2000 2000 (new_tracker, registered_example))))) \<noteq>
     Some (5 * 1.94384) \<and>
   map_option heading (boatData (final (snd
      (fisherman_sample sample_moving 2000 2000 2000 (new_tracker, registered_example))))) = Some 0 \<and>
   map_option heading (boatData (final (snd
      (fisherman_sample sample_moving 2000 2000 2000 (new_tracker, registered_example))))) \<noteq> Some 90 \<and>
   map_option location (boatData (final (snd
      (fisherman_sample sample_moving 2000 2000 2000 (new_tracker, registered_example))))) =
     Some \<lparr>lat = 12, lng = 77, timestamp = 2000\<rparr> \<and>
   localStorage (final (snd
      (fisherman_sample sample_moving 2000 2000 2000 (new_tracker, registered_example))))
       ''registeredVessels'' =
     Some (Ser (JArr [of_boat ((newBoat_of ''AIS-1'' ''B1'' ''Ann'' ''555'' 1000 1000)
        \<lparr>location := \<lparr>lat = 12, lng = 77, timestamp = 2000\<rparr>, lastUpdate := 2000\<rparr>)])) \<and>
   speed ((newBoat_of ''AIS-1'' ''B1'' ''Ann'' ''555'' 1000 1000)
        \<lparr>location := \<lparr>lat = 12, lng = 77, timestamp = 2000\<rparr>, lastUpdate := 2000\<rparr>) = 0"
  by (simp add: registered_state sample_moving_def fisherman_sample_def updateLocation_def
      write_back_def final_def replace_own_def has_aisId_def of_boat_def of_point_def of_status_def
      opt_prop_def newBoat_of_def dispatchEvent_def setItem_def emit_def JSON_stringify_def Let_def)

end
